theory Spec2Isabelle
  imports Complex_Main "HOL-Library.AList"
begin

section \<open>JavaScript values read by the scorer\<close>

text \<open>
  The scorer reads numeric fields through \<^verbatim>\<open>x || 0\<close>, \<^verbatim>\<open>===\<close>, \<^verbatim>\<open><\<close> and \<^verbatim>\<open>>\<close>, so a numeric
  field is modelled as a JavaScript value: a missing field is \<open>Undefined\<close>, a finite number is
  a rational (every double is one; \<open>-0\<close> is not told apart from \<open>0\<close>, no operation used
  here distinguishes them), and the three non-finite numbers are constructors of their own.
  Strings and objects in numeric fields are outside the model.
\<close>

datatype jsval = Undefined | Null | Boolean bool | Number rat | NaN | Infinity | NegInfinity

text \<open>ToBoolean: the falsy values are \<^verbatim>\<open>undefined\<close>, \<^verbatim>\<open>null\<close>, \<^verbatim>\<open>false\<close>, \<^verbatim>\<open>0\<close> and \<^verbatim>\<open>NaN\<close>.\<close>

fun truthy :: "jsval \<Rightarrow> bool" where
  "truthy Undefined = False"
| "truthy Null = False"
| "truthy (Boolean b) = b"
| "truthy (Number n) = (n \<noteq> 0)"
| "truthy NaN = False"
| "truthy Infinity = True"
| "truthy NegInfinity = True"

text \<open>\<^verbatim>\<open>a || b\<close> yields \<open>a\<close> when it is truthy and \<open>b\<close> otherwise.\<close>

definition js_or :: "jsval \<Rightarrow> jsval \<Rightarrow> jsval" where
  "js_or a b = (if truthy a then a else b)"

text \<open>ToNumber on the values of the model.\<close>

fun ToNumber :: "jsval \<Rightarrow> jsval" where
  "ToNumber Undefined = NaN"
| "ToNumber Null = Number 0"
| "ToNumber (Boolean b) = Number (if b then 1 else 0)"
| "ToNumber v = v"

text \<open>
  \<^verbatim>\<open>v > c\<close> and \<^verbatim>\<open>v < c\<close> against a finite numeric literal \<open>c\<close>: both operands go through
  ToNumber, and every comparison with \<open>NaN\<close> is false.
\<close>

definition js_gt :: "jsval \<Rightarrow> rat \<Rightarrow> bool" where
  "js_gt v c = (case ToNumber v of Number n \<Rightarrow> c < n | Infinity \<Rightarrow> True | _ \<Rightarrow> False)"

definition js_lt :: "jsval \<Rightarrow> rat \<Rightarrow> bool" where
  "js_lt v c = (case ToNumber v of Number n \<Rightarrow> n < c | NegInfinity \<Rightarrow> True | _ \<Rightarrow> False)"

text \<open>\<^verbatim>\<open>v === c\<close> against a finite numeric literal: no coercion, only the number itself is equal.\<close>

definition js_strict_eq :: "jsval \<Rightarrow> rat \<Rightarrow> bool" where
  "js_strict_eq v c = (v = Number c)"

section \<open>The analysis result\<close>

text \<open>
  The objects of the program, each field optional as in a JavaScript object: \<open>None\<close> is a
  missing string field (or one that holds no string), \<open>Undefined\<close> a missing numeric field,
  and \<open>None\<close> for a sub-record is a missing (falsy) sub-record.
\<close>

record maintenance_signal =
  lastPublish :: "string option"
  daysSincePublish :: jsval
  status :: "string option"

record popularity_signal =
  weeklyDownloads :: jsval
  trend :: "string option"
  trendPercent :: jsval

record size_signal =
  unpackedSize :: jsval
  unpackedSizeHuman :: "string option"

record security_signal =
  vulnerabilities :: jsval
  severity :: "string option"

record alternative_suggestion =
  alt_name :: "string option"
  alt_reason :: "string option"

record analysis_result =
  name :: "string option"
  version :: "string option"
  latestVersion :: "string option"
  maintenance :: "maintenance_signal option"
  popularity :: "popularity_signal option"
  size_rec :: "size_signal option"
  security :: "security_signal option"
  alternative :: "alternative_suggestion option"
  score :: "int option"
  grade :: "string option"
  error :: "string option"

section \<open>lib/score.js\<close>

text \<open>
  \<^verbatim>\<open>calculateScore\<close>: the variable \<^verbatim>\<open>score\<close> is threaded through the five blocks in the
  order of the source, and the result is clamped by \<^verbatim>\<open>Math.max(0, Math.min(100, score))\<close>.
\<close>

definition calculateScore :: "analysis_result \<Rightarrow> int" where
  "calculateScore analysisResult =
    (let score0 = 0;
         score1 =
           (case maintenance analysisResult of
              None \<Rightarrow> score0
            | Some m \<Rightarrow>
                if status m = Some ''active'' then score0 + 30
                else if status m = Some ''stale'' then score0 + 15
                else score0);
         score2 =
           (case popularity analysisResult of
              None \<Rightarrow> score1
            | Some p \<Rightarrow>
                let dl = js_or (weeklyDownloads p) (Number 0) in
                if js_gt dl 1000000 then score1 + 20
                else if js_gt dl 100000 then score1 + 15
                else if js_gt dl 10000 then score1 + 10
                else if js_gt dl 1000 then score1 + 5
                else score1);
         score3 =
           (case size_rec analysisResult of
              None \<Rightarrow> score2
            | Some s \<Rightarrow>
                let bytes = js_or (unpackedSize s) (Number 0) in
                if js_strict_eq bytes 0 then score2 + 8
                else if js_lt bytes (100 * 1024) then score2 + 15
                else if js_lt bytes (500 * 1024) then score2 + 12
                else if js_lt bytes (1024 * 1024) then score2 + 8
                else if js_lt bytes (5 * 1024 * 1024) then score2 + 4
                else score2);
         score4 =
           (case security analysisResult of
              None \<Rightarrow> score3
            | Some sec \<Rightarrow>
                if severity sec = Some ''none'' then score3 + 25
                else if severity sec = Some ''low'' then score3 + 15
                else if severity sec = Some ''moderate'' then score3 + 8
                else if severity sec = Some ''high'' then score3 + 2
                else score3);
         score5 =
           (case popularity analysisResult of
              None \<Rightarrow> score4
            | Some p \<Rightarrow>
                if trend p = Some ''growing'' then score4 + 10
                else if trend p = Some ''stable'' then score4 + 7
                else if trend p = Some ''declining'' then score4 + 2
                else score4)
     in max 0 (min 100 score5))"

text \<open>\<^verbatim>\<open>calculateGrade\<close>: four comparisons in order, \<^verbatim>\<open>'F'\<close> as the fall-through.\<close>

definition calculateGrade :: "int \<Rightarrow> string" where
  "calculateGrade s =
    (if s \<ge> 80 then ''A''
     else if s \<ge> 60 then ''B''
     else if s \<ge> 40 then ''C''
     else if s \<ge> 20 then ''D''
     else ''F'')"

text \<open>
  The contribution of each block of \<^verbatim>\<open>calculateScore\<close>, read on its own: what the block adds
  to \<^verbatim>\<open>score\<close>.
\<close>

definition maintenance_pts :: "analysis_result \<Rightarrow> int" where
  "maintenance_pts r =
    (case maintenance r of
       None \<Rightarrow> 0
     | Some m \<Rightarrow>
         if status m = Some ''active'' then 30
         else if status m = Some ''stale'' then 15
         else 0)"

definition popularity_pts :: "analysis_result \<Rightarrow> int" where
  "popularity_pts r =
    (case popularity r of
       None \<Rightarrow> 0
     | Some p \<Rightarrow>
         let dl = js_or (weeklyDownloads p) (Number 0) in
         if js_gt dl 1000000 then 20
         else if js_gt dl 100000 then 15
         else if js_gt dl 10000 then 10
         else if js_gt dl 1000 then 5
         else 0)"

definition size_pts :: "analysis_result \<Rightarrow> int" where
  "size_pts r =
    (case size_rec r of
       None \<Rightarrow> 0
     | Some s \<Rightarrow>
         let bytes = js_or (unpackedSize s) (Number 0) in
         if js_strict_eq bytes 0 then 8
         else if js_lt bytes (100 * 1024) then 15
         else if js_lt bytes (500 * 1024) then 12
         else if js_lt bytes (1024 * 1024) then 8
         else if js_lt bytes (5 * 1024 * 1024) then 4
         else 0)"

definition security_pts :: "analysis_result \<Rightarrow> int" where
  "security_pts r =
    (case security r of
       None \<Rightarrow> 0
     | Some sec \<Rightarrow>
         if severity sec = Some ''none'' then 25
         else if severity sec = Some ''low'' then 15
         else if severity sec = Some ''moderate'' then 8
         else if severity sec = Some ''high'' then 2
         else 0)"

definition trend_pts :: "analysis_result \<Rightarrow> int" where
  "trend_pts r =
    (case popularity r of
       None \<Rightarrow> 0
     | Some p \<Rightarrow>
         if trend p = Some ''growing'' then 10
         else if trend p = Some ''stable'' then 7
         else if trend p = Some ''declining'' then 2
         else 0)"

text \<open>
  \<^verbatim>\<open>calculateProjectScore\<close>. The two \<^verbatim>\<open>for\<close> loops share one body, with the weight as the only
  difference; \<open>score_loop\<close> is that loop, carrying \<^verbatim>\<open>weightedSum\<close> and \<^verbatim>\<open>totalWeight\<close>.
  \<open>score r = None\<close> stands for \<^verbatim>\<open>typeof r.score !== 'number'\<close>, and \<open>score r = Some n\<close> for the
  integral number \<open>n\<close>, the only kind of number the program stores in \<^verbatim>\<open>score\<close>.

  Numbers are exact rationals here. On integer scores the doubles of the source agree with
  them: every partial sum is a multiple of \<open>1/2\<close> and is represented exactly, and the one
  rounded operation, the final division, cannot move the quotient across a half-integer,
  since a quotient \<open>a / b\<close> that is not a half-integer is at least \<open>1 / (4 * b)\<close> away from
  the nearest one, far more than half a unit in the last place for any array JavaScript can
  hold.
\<close>

fun score_loop :: "rat \<Rightarrow> analysis_result list \<Rightarrow> rat \<times> rat \<Rightarrow> rat \<times> rat" where
  "score_loop weight [] (weightedSum, totalWeight) = (weightedSum, totalWeight)"
| "score_loop weight (r # rs) (weightedSum, totalWeight) =
     (let s = (case score r of Some n \<Rightarrow> of_int n | None \<Rightarrow> 0)
      in score_loop weight rs (weightedSum + s * weight, totalWeight + weight))"

text \<open>\<^verbatim>\<open>Math.round\<close>: the nearest integer, a tie going towards \<open>+\<infinity>\<close>.\<close>

definition Math_round :: "rat \<Rightarrow> int" where
  "Math_round x = \<lfloor>x + 1 / 2\<rfloor>"

definition calculateProjectScore :: "analysis_result list \<Rightarrow> analysis_result list \<Rightarrow> int" where
  "calculateProjectScore results devResults =
    (let prodWeight = 1;
         devWeight = 1 / 2;
         acc0 = (0, 0);
         acc1 = (if length results > 0 then score_loop prodWeight results acc0 else acc0);
         acc2 = (if length devResults > 0 then score_loop devWeight devResults acc1 else acc1)
     in case acc2 of (weightedSum, totalWeight) \<Rightarrow>
          if totalWeight = 0 then 0 else Math_round (weightedSum / totalWeight))"

section \<open>lib/npm-api.js: the download trend\<close>

text \<open>
  The arithmetic of \<^verbatim>\<open>getDownloadTrend\<close> is arithmetic on doubles. A finite double is a
  rational, and each operation yields the exact result rounded to the nearest double, a tie
  going to the even significand. \<open>binary64\<close> is that rounding for the normal range (53
  significant bits; overflow and subnormal numbers, far from the download counts of a
  package, are not modelled): \<open>exponent x\<close> is the \<open>e\<close> with \<open>2^e \<le> |x| < 2^(e+1)\<close>, and the
  result is the multiple of \<open>2^(e-52)\<close> nearest to \<open>x\<close>.
\<close>

fun bit_length :: "nat \<Rightarrow> nat" where
  "bit_length n = (if n = 0 then 0 else Suc (bit_length (n div 2)))"

definition pow2 :: "int \<Rightarrow> rat" where
  "pow2 e = (if 0 \<le> e then 2 ^ nat e else 1 / 2 ^ nat (- e))"

definition exponent :: "rat \<Rightarrow> int" where
  "exponent x =
    (if 1 \<le> \<bar>x\<bar> then int (bit_length (nat \<lfloor>\<bar>x\<bar>\<rfloor>)) - 1
     else - int (bit_length (nat (\<lceil>1 / \<bar>x\<bar>\<rceil> - 1))))"

definition round_half_even :: "rat \<Rightarrow> int" where
  "round_half_even x =
    (let f = \<lfloor>x\<rfloor>; r = x - of_int f
     in if r < 1 / 2 then f
        else if 1 / 2 < r then f + 1
        else if even f then f
        else f + 1)"

definition binary64 :: "rat \<Rightarrow> rat" where
  "binary64 x =
    (if x = 0 then 0
     else let ulp = pow2 (exponent x - 52)
          in of_int (round_half_even (x / ulp)) * ulp)"

text \<open>The four operations on doubles.\<close>

definition js_add :: "rat \<Rightarrow> rat \<Rightarrow> rat" where
  "js_add a b = binary64 (a + b)"

definition js_sub :: "rat \<Rightarrow> rat \<Rightarrow> rat" where
  "js_sub a b = binary64 (a - b)"

definition js_mul :: "rat \<Rightarrow> rat \<Rightarrow> rat" where
  "js_mul a b = binary64 (a * b)"

definition js_div :: "rat \<Rightarrow> rat \<Rightarrow> rat" where
  "js_div a b = binary64 (a / b)"

text \<open>
  \<^verbatim>\<open>xs.slice(start, end)\<close>: a negative index counts from the end, and both are clamped to
  the array.
\<close>

definition js_slice :: "'a list \<Rightarrow> int \<Rightarrow> int \<Rightarrow> 'a list" where
  "js_slice xs start end' =
    (let len = int (length xs);
         k = (if start < 0 then max (len + start) 0 else min start len);
         final = (if end' < 0 then max (len + end') 0 else min end' len)
     in take (nat (final - k)) (drop (nat k) xs))"

text \<open>
  \<^verbatim>\<open>getDownloadTrend\<close>, from the point where the response has arrived: \<open>None\<close> is a missing
  response or one without a \<^verbatim>\<open>downloads\<close> array, for which the function returns \<^verbatim>\<open>null\<close>;
  otherwise the argument is the list of the daily \<^verbatim>\<open>downloads\<close> counts.
\<close>

record download_trend =
  recent :: rat
  sixMonthsAgo :: rat
  dl_trend :: string
  percent :: rat

definition getDownloadTrend :: "int list option \<Rightarrow> download_trend option" where
  "getDownloadTrend data =
    (case data of
       None \<Rightarrow> None
     | Some downloads \<Rightarrow>
         let recentDays = js_slice downloads (- 7) (int (length downloads));
             recent' = foldl (\<lambda>sum d. js_add sum (of_int d)) 0 recentDays;
             sixMonthOffset = max 0 (int (length downloads) - 182 - 7);
             oldDays = js_slice downloads sixMonthOffset (sixMonthOffset + 7);
             sixMonthsAgo' = foldl (\<lambda>sum d. js_add sum (of_int d)) 0 oldDays;
             (trend', percent') =
               (if sixMonthsAgo' > 0 then
                  let percent0 = js_mul (js_div (js_sub recent' sixMonthsAgo') sixMonthsAgo') 100;
                      percent1 = js_div (of_int (Math_round (js_mul percent0 10))) 10
                  in if percent1 > 10 then (''growing'', percent1)
                     else if percent1 < - 10 then (''declining'', percent1)
                     else (''stable'', percent1)
                else if recent' > 0 then (''growing'', 100)
                else (''stable'', 0))
         in Some \<lparr>recent = recent', sixMonthsAgo = sixMonthsAgo', dl_trend = trend',
                   percent = percent'\<rparr>)"

section \<open>The orchestrator\<close>

text \<open>
  A promise settles as fulfilled with a value or as rejected with a reason; the reason is
  falsy, or an error object, of which only the \<^verbatim>\<open>message\<close> property is read.
\<close>

datatype rejection = NoReason | Error "string option"

datatype 'a settled = Fulfilled 'a | Rejected rejection

text \<open>The registry document, with the fields the program reads.\<close>

record dist_tags =
  latest :: "string option"

record package_info =
  dist_tags_field :: "dist_tags option"
  time_field :: "(string \<times> string) list option"
  versions_field :: "(string \<times> jsval) list option"

text \<open>
  The registry, the download statistics, the clock and the curated alternatives are outside
  the program. \<open>env\<close> holds what they answer: how \<^verbatim>\<open>getPackageInfo\<close> settles for a name
  (\<open>Fulfilled None\<close> is \<^verbatim>\<open>null\<close>: not found, a network error or a timeout), how each of the
  four analyzers settles on the arguments \<^verbatim>\<open>analyzePackage\<close> passes, and what
  \<^verbatim>\<open>getAlternative\<close> finds. Clearing the cache (\<^verbatim>\<open>options.noCache\<close>) cannot fail and only
  changes which answers the fetch layer gives, so it has no parameter here.
\<close>

record env =
  getPackageInfo :: "string \<Rightarrow> package_info option settled"
  analyzeMaintenance :: "package_info \<Rightarrow> maintenance_signal settled"
  analyzePopularity :: "string \<Rightarrow> popularity_signal settled"
  analyzeSize :: "package_info \<Rightarrow> size_signal settled"
  analyzeSecurity :: "string \<Rightarrow> string \<Rightarrow> security_signal settled"
  getAlternative :: "string \<Rightarrow> alternative_suggestion option"

text \<open>The four object literals that \<^verbatim>\<open>analyzePackage\<close> writes twice.\<close>

definition default_maintenance :: maintenance_signal where
  "default_maintenance =
    \<lparr>lastPublish = Some ''unknown'', daysSincePublish = Infinity, status = Some ''abandoned''\<rparr>"

definition default_popularity :: popularity_signal where
  "default_popularity =
    \<lparr>weeklyDownloads = Number 0, trend = Some ''stable'', trendPercent = Number 0\<rparr>"

definition default_size :: size_signal where
  "default_size = \<lparr>unpackedSize = Number 0, unpackedSizeHuman = Some ''unknown''\<rparr>"

definition default_security :: security_signal where
  "default_security = \<lparr>vulnerabilities = Number 0, severity = Some ''none''\<rparr>"

text \<open>
  \<^verbatim>\<open>results[i].status === 'fulfilled' ? results[i].value : d\<close>: the value of a settled
  promise, or the default \<open>d\<close>.
\<close>

definition settled_or :: "'a settled \<Rightarrow> 'a \<Rightarrow> 'a" where
  "settled_or r d = (case r of Fulfilled v \<Rightarrow> v | Rejected reason \<Rightarrow> d)"

text \<open>
  \<^verbatim>\<open>(packageInfo['dist-tags'] && packageInfo['dist-tags'].latest) || 'unknown'\<close>: a missing
  \<^verbatim>\<open>dist-tags\<close>, a missing \<^verbatim>\<open>latest\<close> and the empty string are all falsy.
\<close>

definition latest_or_unknown :: "package_info \<Rightarrow> string" where
  "latest_or_unknown packageInfo =
    (case dist_tags_field packageInfo of
       None \<Rightarrow> ''unknown''
     | Some tags \<Rightarrow>
         (case latest tags of
            None \<Rightarrow> ''unknown''
          | Some l \<Rightarrow> if l = [] then ''unknown'' else l))"

text \<open>
  \<^verbatim>\<open>analyzePackage\<close>. A rejection of \<^verbatim>\<open>getPackageInfo\<close> rejects the whole call; \<^verbatim>\<open>null\<close> gives
  the error record; otherwise the four analyzers are settled and each rejected one is
  replaced by its default literal, and the record is scored and graded.
\<close>

definition analyzePackage :: "env \<Rightarrow> string \<Rightarrow> string \<Rightarrow> analysis_result settled" where
  "analyzePackage e nm ver =
    (case getPackageInfo e nm of
       Rejected reason \<Rightarrow> Rejected reason
     | Fulfilled None \<Rightarrow>
         Fulfilled
           \<lparr>name = Some nm,
            version = Some ver,
            latestVersion = Some ''unknown'',
            maintenance = Some default_maintenance,
            popularity = Some default_popularity,
            size_rec = Some default_size,
            security = Some default_security,
            alternative = getAlternative e nm,
            score = Some 0,
            grade = Some ''F'',
            error = Some ''Package not found or network error''\<rparr>
     | Fulfilled (Some packageInfo) \<Rightarrow>
         let latestVersion' = latest_or_unknown packageInfo;
             results0 = analyzeMaintenance e packageInfo;
             results1 = analyzePopularity e nm;
             results2 = analyzeSize e packageInfo;
             results3 = analyzeSecurity e nm ver;
             maintenance' = settled_or results0 default_maintenance;
             popularity' = settled_or results1 default_popularity;
             size' = settled_or results2 default_size;
             security' = settled_or results3 default_security;
             alternative' = getAlternative e nm;
             analysisResult =
               \<lparr>name = Some nm,
                version = Some ver,
                latestVersion = Some latestVersion',
                maintenance = Some maintenance',
                popularity = Some popularity',
                size_rec = Some size',
                security = Some security',
                alternative = alternative',
                score = None,
                grade = None,
                error = None\<rparr>;
             score' = calculateScore analysisResult;
             analysisResult = analysisResult\<lparr>score := Some score'\<rparr>;
             analysisResult = analysisResult\<lparr>grade := Some (calculateGrade score')\<rparr>
         in Fulfilled analysisResult)"

text \<open>The record of \<^verbatim>\<open>analyzePackage\<close> just before it is scored, for a package that was found.\<close>

definition analysis_before_scoring ::
  "env \<Rightarrow> string \<Rightarrow> string \<Rightarrow> package_info \<Rightarrow> analysis_result" where
  "analysis_before_scoring e nm ver packageInfo =
    \<lparr>name = Some nm,
     version = Some ver,
     latestVersion = Some (latest_or_unknown packageInfo),
     maintenance = Some (settled_or (analyzeMaintenance e packageInfo) default_maintenance),
     popularity = Some (settled_or (analyzePopularity e nm) default_popularity),
     size_rec = Some (settled_or (analyzeSize e packageInfo) default_size),
     security = Some (settled_or (analyzeSecurity e nm ver) default_security),
     alternative = getAlternative e nm,
     score = None,
     grade = None,
     error = None\<rparr>"













section \<open>The scoring table of the specification\<close>

text \<open>
  The signal records of the specification's data model, with their enumerations, and the
  five rows of its scoring table. These definitions follow the specification, not the
  code; \<open>js_bundle\<close> writes a signal bundle as the object the code receives.
\<close>

datatype maintenance_status = Active | Stale | Abandoned

datatype trend_direction = Growing | Stable | Declining

datatype severity_level = NoVulnerability | Low | Moderate | High | Critical

record spec_maintenance =
  spec_lastPublishDate :: "string option"
  spec_daysSincePublish :: "int option"
  spec_status :: maintenance_status

record spec_popularity =
  spec_weeklyDownloads :: nat
  spec_trend :: trend_direction
  spec_trendPercent :: rat

record spec_size =
  spec_unpackedSizeBytes :: nat
  spec_unpackedSizeHuman :: string

record spec_security =
  spec_vulnerabilityCount :: nat
  spec_severity :: severity_level

record signal_bundle =
  sig_maintenance :: "spec_maintenance option"
  sig_popularity :: "spec_popularity option"
  sig_size :: "spec_size option"
  sig_security :: "spec_security option"

fun spec_maintenance_points :: "spec_maintenance option \<Rightarrow> int" where
  "spec_maintenance_points None = 0"
| "spec_maintenance_points (Some m) =
     (case spec_status m of Active \<Rightarrow> 30 | Stale \<Rightarrow> 15 | Abandoned \<Rightarrow> 0)"

fun spec_popularity_points :: "spec_popularity option \<Rightarrow> int" where
  "spec_popularity_points None = 0"
| "spec_popularity_points (Some p) =
     (if spec_weeklyDownloads p > 1000000 then 20
      else if spec_weeklyDownloads p > 100000 then 15
      else if spec_weeklyDownloads p > 10000 then 10
      else if spec_weeklyDownloads p > 1000 then 5
      else 0)"

fun spec_size_points :: "spec_size option \<Rightarrow> int" where
  "spec_size_points None = 0"
| "spec_size_points (Some s) =
     (if spec_unpackedSizeBytes s = 0 then 8
      else if spec_unpackedSizeBytes s < 100 * 1024 then 15
      else if spec_unpackedSizeBytes s < 500 * 1024 then 12
      else if spec_unpackedSizeBytes s < 1024 ^ 2 then 8
      else if spec_unpackedSizeBytes s < 5 * 1024 ^ 2 then 4
      else 0)"

fun spec_security_points :: "spec_security option \<Rightarrow> int" where
  "spec_security_points None = 0"
| "spec_security_points (Some s) =
     (case spec_severity s of
        NoVulnerability \<Rightarrow> 25 | Low \<Rightarrow> 15 | Moderate \<Rightarrow> 8 | High \<Rightarrow> 2 | Critical \<Rightarrow> 0)"

fun spec_trend_points :: "spec_popularity option \<Rightarrow> int" where
  "spec_trend_points None = 0"
| "spec_trend_points (Some p) =
     (case spec_trend p of Growing \<Rightarrow> 10 | Stable \<Rightarrow> 7 | Declining \<Rightarrow> 2)"

definition spec_score :: "signal_bundle \<Rightarrow> int" where
  "spec_score b =
     spec_maintenance_points (sig_maintenance b) + spec_popularity_points (sig_popularity b)
     + spec_size_points (sig_size b) + spec_security_points (sig_security b)
     + spec_trend_points (sig_popularity b)"

text \<open>The strings the program uses for the enumerations.\<close>

fun status_string :: "maintenance_status \<Rightarrow> string" where
  "status_string Active = ''active''"
| "status_string Stale = ''stale''"
| "status_string Abandoned = ''abandoned''"

fun trend_string :: "trend_direction \<Rightarrow> string" where
  "trend_string Growing = ''growing''"
| "trend_string Stable = ''stable''"
| "trend_string Declining = ''declining''"

fun severity_string :: "severity_level \<Rightarrow> string" where
  "severity_string NoVulnerability = ''none''"
| "severity_string Low = ''low''"
| "severity_string Moderate = ''moderate''"
| "severity_string High = ''high''"
| "severity_string Critical = ''critical''"

definition js_maintenance :: "spec_maintenance \<Rightarrow> maintenance_signal" where
  "js_maintenance m =
    \<lparr>lastPublish = Some (case spec_lastPublishDate m of None \<Rightarrow> ''unknown'' | Some d \<Rightarrow> d),
     daysSincePublish =
       (case spec_daysSincePublish m of None \<Rightarrow> Infinity | Some d \<Rightarrow> Number (of_int d)),
     status = Some (status_string (spec_status m))\<rparr>"

definition js_popularity :: "spec_popularity \<Rightarrow> popularity_signal" where
  "js_popularity p =
    \<lparr>weeklyDownloads = Number (of_nat (spec_weeklyDownloads p)),
     trend = Some (trend_string (spec_trend p)),
     trendPercent = Number (spec_trendPercent p)\<rparr>"

definition js_size :: "spec_size \<Rightarrow> size_signal" where
  "js_size s =
    \<lparr>unpackedSize = Number (of_nat (spec_unpackedSizeBytes s)),
     unpackedSizeHuman = Some (spec_unpackedSizeHuman s)\<rparr>"

definition js_security :: "spec_security \<Rightarrow> security_signal" where
  "js_security s =
    \<lparr>vulnerabilities = Number (of_nat (spec_vulnerabilityCount s)),
     severity = Some (severity_string (spec_severity s))\<rparr>"

text \<open>
  The bundle inside an object \<open>base\<close>, which supplies the fields that are not signals (name,
  version, alternative and so on).
\<close>

definition js_bundle :: "analysis_result \<Rightarrow> signal_bundle \<Rightarrow> analysis_result" where
  "js_bundle base b =
    base\<lparr>maintenance := map_option js_maintenance (sig_maintenance b),
         popularity := map_option js_popularity (sig_popularity b),
         size_rec := map_option js_size (sig_size b),
         security := map_option js_security (sig_security b)\<rparr>"

text \<open>
  The weighted mean of the specification, on the two lists of scores: weight \<open>1\<close> for a
  production entry, \<open>1/2\<close> for a dev entry, \<open>0\<close> when there is no entry at all.
\<close>

definition spec_projectScore :: "int list \<Rightarrow> int list \<Rightarrow> int" where
  "spec_projectScore ps ds =
    (if ps = [] \<and> ds = [] then 0
     else round ((sum_list (map (\<lambda>s. of_int s * 1) ps) + sum_list (map (\<lambda>s. of_int s * (1 / 2)) ds))
                 / (of_nat (length ps) * 1 + of_nat (length ds) * (1 / 2)) :: rat))"

section \<open>Objects of the test suite\<close>

text \<open>The object \<^verbatim>\<open>{}\<close>.\<close>

definition empty_result :: analysis_result where
  "empty_result =
    \<lparr>name = None, version = None, latestVersion = None, maintenance = None,
     popularity = None, size_rec = None, security = None, alternative = None,
     score = None, grade = None, error = None\<rparr>"

text \<open>
  A bundle as the tests write it: only \<^verbatim>\<open>status\<close>, \<^verbatim>\<open>weeklyDownloads\<close>, \<^verbatim>\<open>trend\<close>,
  \<^verbatim>\<open>unpackedSize\<close> and \<^verbatim>\<open>severity\<close> are present.
\<close>

definition test_bundle :: "string \<Rightarrow> rat \<Rightarrow> string \<Rightarrow> rat \<Rightarrow> string \<Rightarrow> analysis_result" where
  "test_bundle st dl tr bytes sev =
    empty_result
      \<lparr>maintenance := Some \<lparr>lastPublish = None, daysSincePublish = Undefined, status = Some st\<rparr>,
       popularity := Some \<lparr>weeklyDownloads = Number dl, trend = Some tr, trendPercent = Undefined\<rparr>,
       size_rec := Some \<lparr>unpackedSize = Number bytes, unpackedSizeHuman = None\<rparr>,
       security := Some \<lparr>vulnerabilities = Undefined, severity = Some sev\<rparr>\<rparr>"

definition perfect_bundle :: analysis_result where
  "perfect_bundle = test_bundle ''active'' 2000000 ''growing'' 50000 ''none''"

definition worst_bundle :: analysis_result where
  "worst_bundle = test_bundle ''abandoned'' 50 ''declining'' 10000000 ''critical''"

definition mixed_bundle :: analysis_result where
  "mixed_bundle = test_bundle ''stale'' 50000 ''stable'' 200000 ''moderate''"

text \<open>\<^verbatim>\<open>{popularity: {weeklyDownloads: n}}\<close> and \<^verbatim>\<open>{size: {unpackedSize: v}}\<close>.\<close>

definition downloads_only :: "rat \<Rightarrow> analysis_result" where
  "downloads_only n =
    empty_result
      \<lparr>popularity := Some \<lparr>weeklyDownloads = Number n, trend = None, trendPercent = Undefined\<rparr>\<rparr>"

definition size_only :: "jsval \<Rightarrow> analysis_result" where
  "size_only v = empty_result\<lparr>size_rec := Some \<lparr>unpackedSize = v, unpackedSizeHuman = None\<rparr>\<rparr>"

text \<open>\<^verbatim>\<open>{score: n}\<close>, the entries of the project-score tests.\<close>

definition with_score :: "int \<Rightarrow> analysis_result" where
  "with_score n = empty_result\<lparr>score := Some n\<rparr>"

text \<open>The number \<^verbatim>\<open>calculateProjectScore\<close> reads from an entry.\<close>

definition score_value :: "analysis_result \<Rightarrow> rat" where
  "score_value r = (case score r of Some n \<Rightarrow> of_int n | None \<Rightarrow> 0)"

section \<open>Example runs of the orchestrator\<close>



text \<open>
  A package that is found, stale, moderately popular and of medium size, while the
  security analyzer rejects.
\<close>

definition example_info :: package_info where
  "example_info =
    \<lparr>dist_tags_field = Some \<lparr>latest = Some ''1.3.0''\<rparr>, time_field = None, versions_field = None\<rparr>"

definition stale_maintenance :: maintenance_signal where
  "stale_maintenance =
    \<lparr>lastPublish = Some ''2025-11-02'', daysSincePublish = Number 365, status = Some ''stale''\<rparr>"

definition stable_popularity :: popularity_signal where
  "stable_popularity =
    \<lparr>weeklyDownloads = Number 50000, trend = Some ''stable'', trendPercent = Number 0\<rparr>"

definition medium_size :: size_signal where
  "medium_size = \<lparr>unpackedSize = Number 200000, unpackedSizeHuman = Some ''195 KB''\<rparr>"

definition security_down_env :: env where
  "security_down_env =
    \<lparr>getPackageInfo = (\<lambda>nm. Fulfilled (Some example_info)),
     analyzeMaintenance = (\<lambda>info. Fulfilled stale_maintenance),
     analyzePopularity = (\<lambda>nm. Fulfilled stable_popularity),
     analyzeSize = (\<lambda>info. Fulfilled medium_size),
     analyzeSecurity = (\<lambda>nm ver. Rejected (Error (Some ''audit failed''))),
     getAlternative = (\<lambda>nm. None)\<rparr>"

definition security_down_result :: analysis_result where
  "security_down_result =
    \<lparr>name = Some ''left-pad'',
     version = Some ''^1.3.0'',
     latestVersion = Some ''1.3.0'',
     maintenance = Some stale_maintenance,
     popularity = Some stable_popularity,
     size_rec = Some medium_size,
     security = Some \<lparr>vulnerabilities = Number 0, severity = Some ''none''\<rparr>,
     alternative = None,
     score = Some 69,
     grade = Some ''B'',
     error = None\<rparr>"







text \<open>
  A year of daily counts in which the seven days that start 189 days before the end total
  80 and the last seven days total 103.
\<close>

definition tie_series :: "int list" where
  "tie_series = replicate 176 0 @ [80] @ replicate 181 0 @ [103] @ replicate 6 0"

text \<open>The rounding to one decimal of the specification, and the exact percent change.\<close>

definition spec_round1 :: "rat \<Rightarrow> rat" where
  "spec_round1 x = of_int (round (x * 10)) / 10"

definition spec_percent :: "int \<Rightarrow> int \<Rightarrow> rat" where
  "spec_percent R P = (of_int R - of_int P) / of_int P * 100"

section \<open>The scorer\<close>

subsection \<open>One block at a time\<close>

lemma if_add_left: "(if c then s + x else s + y) = s + (if c then x else (y::int))"
  by simp

lemma if_add_zero: "(if c then s + x else s) = s + (if c then x else (0::int))"
  by simp

text \<open>
  The running total is the sum of the five contributions: in each of the sixteen
  combinations of present and missing sub-records, the additions are moved out of the
  conditionals, innermost first.
\<close>

lemma calculateScore_blocks:
  "calculateScore r =
     max 0 (min 100
       (maintenance_pts r + popularity_pts r + size_pts r + security_pts r + trend_pts r))"
  by (cases "maintenance r"; cases "popularity r"; cases "size_rec r"; cases "security r";
      simp only: calculateScore_def maintenance_pts_def popularity_pts_def size_pts_def
        security_pts_def trend_pts_def Let_def option.case if_add_left if_add_zero
        add_0 add_0_right add.assoc)

lemma maintenance_pts_bounds: "0 \<le> maintenance_pts r \<and> maintenance_pts r \<le> 30"
  by (simp add: maintenance_pts_def split: option.splits)

lemma popularity_pts_bounds: "0 \<le> popularity_pts r \<and> popularity_pts r \<le> 20"
  by (simp add: popularity_pts_def Let_def split: option.splits)

lemma size_pts_bounds: "0 \<le> size_pts r \<and> size_pts r \<le> 15"
  by (simp add: size_pts_def Let_def split: option.splits)

lemma security_pts_bounds: "0 \<le> security_pts r \<and> security_pts r \<le> 25"
  by (simp add: security_pts_def split: option.splits)

lemma trend_pts_bounds: "0 \<le> trend_pts r \<and> trend_pts r \<le> 10"
  by (simp add: trend_pts_def split: option.splits)

text \<open>The clamp never changes the total, which lies between 0 and 100 already.\<close>

lemma calculateScore_sum:
  "calculateScore r =
     maintenance_pts r + popularity_pts r + size_pts r + security_pts r + trend_pts r"
  using maintenance_pts_bounds[of r] popularity_pts_bounds[of r] size_pts_bounds[of r]
    security_pts_bounds[of r] trend_pts_bounds[of r]
  unfolding calculateScore_blocks by linarith

lemma calculateScore_ignores_score [simp]: "calculateScore (r\<lparr>score := x\<rparr>) = calculateScore r"
  by (simp add: calculateScore_sum maintenance_pts_def popularity_pts_def size_pts_def
      security_pts_def trend_pts_def)

lemma calculateScore_ignores_grade [simp]: "calculateScore (r\<lparr>grade := x\<rparr>) = calculateScore r"
  by (simp add: calculateScore_sum maintenance_pts_def popularity_pts_def size_pts_def
      security_pts_def trend_pts_def)

subsection \<open>The blocks on a bundle of the specification\<close>

lemma maintenance_pts_js:
  "maintenance_pts (js_bundle base b) = spec_maintenance_points (sig_maintenance b)"
  by (cases "sig_maintenance b";
      simp add: maintenance_pts_def js_bundle_def js_maintenance_def
        split: maintenance_status.splits)

lemma js_gt_nat:
  "js_gt (js_or (Number (of_nat n)) (Number 0)) (numeral k) = (numeral k < n)"
proof -
  have "(numeral k < (of_nat n :: rat)) = (numeral k < n)"
    by (metis of_nat_less_iff of_nat_numeral)
  then show ?thesis by (simp add: js_gt_def js_or_def)
qed

lemma popularity_pts_js:
  "popularity_pts (js_bundle base b) = spec_popularity_points (sig_popularity b)"
  by (cases "sig_popularity b";
      simp add: popularity_pts_def js_bundle_def js_popularity_def js_gt_nat)

lemma js_lt_nat:
  "0 < n \<Longrightarrow> js_lt (js_or (Number (of_nat n)) (Number 0)) (of_nat k) = (n < k)"
  by (simp add: js_lt_def js_or_def)

lemma size_pts_js: "size_pts (js_bundle base b) = spec_size_points (sig_size b)"
proof (cases "sig_size b")
  case None
  then show ?thesis by (simp add: size_pts_def js_bundle_def)
next
  case (Some s)
  show ?thesis
  proof (cases "spec_unpackedSizeBytes s = 0")
    case True
    with Some show ?thesis
      by (simp add: size_pts_def js_bundle_def js_size_def js_or_def js_strict_eq_def)
  next
    case False
    then have pos: "0 < spec_unpackedSizeBytes s" by simp
    have ne: "\<not> js_strict_eq (js_or (Number (of_nat (spec_unpackedSizeBytes s))) (Number 0)) 0"
      using False by (simp add: js_or_def js_strict_eq_def)
    have c1: "(100 * 1024 :: rat) = of_nat (100 * 1024)" by simp
    have c2: "(500 * 1024 :: rat) = of_nat (500 * 1024)" by simp
    have c3: "(1024 * 1024 :: rat) = of_nat (1024 ^ 2)" by simp
    have c4: "(5 * 1024 * 1024 :: rat) = of_nat (5 * 1024 ^ 2)" by simp
    show ?thesis
      using Some False ne
      unfolding size_pts_def js_bundle_def js_size_def Let_def c1 c2 c3 c4
      by (simp add: js_lt_nat[OF pos] del: of_nat_mult of_nat_numeral of_nat_power)
  qed
qed

lemma security_pts_js:
  "security_pts (js_bundle base b) = spec_security_points (sig_security b)"
  by (cases "sig_security b";
      simp add: security_pts_def js_bundle_def js_security_def split: severity_level.splits)

lemma trend_pts_js: "trend_pts (js_bundle base b) = spec_trend_points (sig_popularity b)"
  by (cases "sig_popularity b";
      simp add: trend_pts_def js_bundle_def js_popularity_def split: trend_direction.splits)

subsection \<open>The objects of the tests\<close>

lemma test_bundle_score:
  "calculateScore (downloads_only 1000000) = 15"
  "calculateScore (size_only (Number 102400)) = 12"
  "calculateScore mixed_bundle = 52"
  "calculateScore worst_bundle = 2"
  "calculateScore perfect_bundle = 100"
  "calculateScore empty_result = 0"
  "calculateScore (size_only Undefined) = 8"
  by (simp_all add: calculateScore_sum maintenance_pts_def popularity_pts_def size_pts_def
      security_pts_def trend_pts_def downloads_only_def size_only_def mixed_bundle_def
      worst_bundle_def perfect_bundle_def test_bundle_def empty_result_def js_or_def js_gt_def
      js_lt_def js_strict_eq_def)

lemma size_pts_falsy:
  "size_rec r = Some s \<Longrightarrow> \<not> truthy (unpackedSize s) \<Longrightarrow> size_pts r = 8"
  by (simp add: size_pts_def js_or_def js_strict_eq_def)

lemma size_pts_falsy_delta:
  "size_rec r = Some s \<Longrightarrow> \<not> truthy (unpackedSize s) \<Longrightarrow>
   calculateScore r = calculateScore (r\<lparr>size_rec := None\<rparr>) + 8"
  by (simp add: calculateScore_sum size_pts_falsy)
     (simp add: maintenance_pts_def popularity_pts_def size_pts_def security_pts_def
        trend_pts_def)

lemma security_none_delta:
  "security r = Some sec \<Longrightarrow> severity sec = Some ''none'' \<Longrightarrow>
   calculateScore r = calculateScore (r\<lparr>security := None\<rparr>) + 25"
  by (simp add: calculateScore_sum)
     (simp add: maintenance_pts_def popularity_pts_def size_pts_def security_pts_def
        trend_pts_def)

subsection \<open>Claims about the scorer and the grade\<close>

text \<open>
  Claim C1. For every signal bundle of the data model, written as the object the code
  receives (inside any object \<open>base\<close>), \<^verbatim>\<open>calculateScore\<close> is the sum of the five rows of the
  scoring table. Exactly 1,000,000 weekly downloads score 15, exactly 102,400 bytes score
  12, the mixed bundle of the tests scores 52 and the worst one 2.
\<close>

theorem calculateScore_table:
  "calculateScore (js_bundle base b) = spec_score b
   \<and> calculateScore (downloads_only 1000000) = 15
   \<and> calculateScore (size_only (Number 102400)) = 12
   \<and> calculateScore mixed_bundle = 52
   \<and> calculateScore worst_bundle = 2"
  by (simp add: calculateScore_sum[of "js_bundle base b"] maintenance_pts_js popularity_pts_js
      size_pts_js security_pts_js trend_pts_js spec_score_def test_bundle_score)

text \<open>
  Claim C7. \<^verbatim>\<open>calculateScore\<close> has no failing branch: on every object, whatever sub-records
  and fields are missing, its value is an integer between 0 and 100, and as a function it
  gives the same value for the same object. The empty object scores 0, which is grade F.
\<close>

theorem calculateScore_total:
  "0 \<le> calculateScore r \<and> calculateScore r \<le> 100
   \<and> calculateScore empty_result = 0
   \<and> calculateGrade (calculateScore empty_result) = ''F''"
  by (simp add: calculateScore_blocks[of r] test_bundle_score calculateGrade_def)

text \<open>
  Claim C9. A size sub-record whose \<^verbatim>\<open>unpackedSize\<close> is falsy (0, missing, \<^verbatim>\<open>null\<close>, \<^verbatim>\<open>false\<close>,
  \<^verbatim>\<open>NaN\<close>) adds 8 points to what the same object scores without a size sub-record;
  \<^verbatim>\<open>{size: {}}\<close> scores 8 and \<^verbatim>\<open>{}\<close> scores 0.
\<close>

theorem unknown_size_partial_credit:
  "(size_rec r = Some s \<and> \<not> truthy (unpackedSize s)
      \<longrightarrow> calculateScore r = calculateScore (r\<lparr>size_rec := None\<rparr>) + 8)
   \<and> calculateScore (size_only Undefined) = 8
   \<and> calculateScore empty_result = 0"
  using size_pts_falsy_delta[of r s] by (simp add: test_bundle_score)

theorem unknown_size_partial_credit_witness:
  "size_rec (size_only (Number 0)) = Some \<lparr>unpackedSize = Number 0, unpackedSizeHuman = None\<rparr>
   \<and> \<not> truthy (Number 0)
   \<and> calculateScore (size_only (Number 0))
       = calculateScore ((size_only (Number 0))\<lparr>size_rec := None\<rparr>) + 8"
  using unknown_size_partial_credit
    [of "size_only (Number 0)" "\<lparr>unpackedSize = Number 0, unpackedSizeHuman = None\<rparr>"]
  by (simp add: size_only_def empty_result_def)

text \<open>
  Claim C2. The grade bands are closed below and open above: 80 to 100 is A, 60 to 79 is
  B, 40 to 59 is C, 20 to 39 is D, 0 to 19 is F, with the eight boundary values of the
  specification.
\<close>

theorem calculateGrade_bands:
  "(80 \<le> s \<and> s \<le> 100 \<longrightarrow> calculateGrade s = ''A'')
   \<and> (60 \<le> s \<and> s < 80 \<longrightarrow> calculateGrade s = ''B'')
   \<and> (40 \<le> s \<and> s < 60 \<longrightarrow> calculateGrade s = ''C'')
   \<and> (20 \<le> s \<and> s < 40 \<longrightarrow> calculateGrade s = ''D'')
   \<and> (0 \<le> s \<and> s < 20 \<longrightarrow> calculateGrade s = ''F'')
   \<and> calculateGrade 80 = ''A'' \<and> calculateGrade 79 = ''B''
   \<and> calculateGrade 60 = ''B'' \<and> calculateGrade 59 = ''C''
   \<and> calculateGrade 40 = ''C'' \<and> calculateGrade 39 = ''D''
   \<and> calculateGrade 20 = ''D'' \<and> calculateGrade 19 = ''F''"
  by (simp add: calculateGrade_def)

theorem calculateGrade_bands_witness:
  "calculateGrade 90 = ''A'' \<and> calculateGrade 70 = ''B'' \<and> calculateGrade 50 = ''C''
   \<and> calculateGrade 30 = ''D'' \<and> calculateGrade 10 = ''F''"
  using calculateGrade_bands[of 90] calculateGrade_bands[of 70] calculateGrade_bands[of 50]
    calculateGrade_bands[of 30] calculateGrade_bands[of 10]
  by simp

text \<open>
  Claim C10. \<^verbatim>\<open>calculateGrade\<close> rejects no integer: above 100 the grade is still A, below 0
  it is still F, and the result is always one of the five letters.
\<close>

theorem calculateGrade_out_of_range:
  "(100 < s \<longrightarrow> calculateGrade s = ''A'')
   \<and> (s < 0 \<longrightarrow> calculateGrade s = ''F'')
   \<and> calculateGrade s \<in> {''A'', ''B'', ''C'', ''D'', ''F''}"
  by (simp add: calculateGrade_def)

theorem calculateGrade_out_of_range_witness:
  "calculateGrade 101 = ''A'' \<and> calculateGrade (- 1) = ''F''"
  using calculateGrade_out_of_range[of 101] calculateGrade_out_of_range[of "- 1"]
  by simp

section \<open>The project score\<close>

text \<open>The loop adds, to each accumulator, the sum over the list.\<close>

lemma score_loop_sums:
  "score_loop w rs (a, t) =
     (a + sum_list (map (\<lambda>r. score_value r * w) rs), t + of_nat (length rs) * w)"
  by (induction rs arbitrary: a t) (simp_all add: score_value_def Let_def algebra_simps)

lemma calculateProjectScore_closed:
  "calculateProjectScore results devResults =
    (let a = sum_list (map (\<lambda>r. score_value r * 1) results)
             + sum_list (map (\<lambda>r. score_value r * (1 / 2)) devResults);
         t = of_nat (length results) * 1 + of_nat (length devResults) * (1 / 2)
     in if t = 0 then 0 else Math_round (a / t))"
  by (cases results; cases devResults)
     (simp_all add: calculateProjectScore_def score_loop_sums Let_def)

lemma score_values: "map score rs = map Some ns \<Longrightarrow> map score_value rs = map of_int ns"
proof (induction rs arbitrary: ns)
  case Nil
  then show ?case by simp
next
  case (Cons r rs)
  then obtain n ns' where ns: "ns = n # ns'" by (cases ns) auto
  with Cons show ?case by (simp add: score_value_def)
qed

lemma weighted_values:
  assumes "map score rs = map Some ns"
  shows "sum_list (map (\<lambda>r. score_value r * w) rs) = sum_list (map (\<lambda>s. of_int s * w) ns)"
proof -
  have "map (\<lambda>r. score_value r * w) rs = map (\<lambda>x. x * w) (map score_value rs)" by simp
  also have "\<dots> = map (\<lambda>x. x * w) (map of_int ns)" using score_values[OF assms] by simp
  also have "\<dots> = map (\<lambda>s. of_int s * w) ns" by simp
  finally show ?thesis by simp
qed

lemma total_weight_zero:
  "(of_nat m * 1 + of_nat n * (1 / 2) = (0::rat)) = (m = 0 \<and> n = 0)"
proof -
  have "0 \<le> (of_nat m :: rat)" "0 \<le> (of_nat n :: rat)" by simp_all
  then have "(of_nat m + of_nat n / 2 = (0::rat)) = (of_nat m = (0::rat) \<and> of_nat n = (0::rat))"
    by auto
  then show ?thesis by simp
qed

lemma weighted_sum_bounds:
  fixes w :: rat
  assumes "\<forall>n \<in> set ns. 0 \<le> n \<and> n \<le> (100::int)" "0 \<le> w"
  shows "0 \<le> sum_list (map (\<lambda>s. of_int s * w) ns)
       \<and> sum_list (map (\<lambda>s. of_int s * w) ns) \<le> 100 * (of_nat (length ns) * w)"
  using assms
proof (induction ns)
  case Nil
  then show ?case by simp
next
  case (Cons n ns)
  then have ih: "0 \<le> sum_list (map (\<lambda>s. of_int s * w) ns)"
    "sum_list (map (\<lambda>s. of_int s * w) ns) \<le> 100 * (of_nat (length ns) * w)" by simp_all
  from Cons.prems have n: "0 \<le> n" "n \<le> 100" by simp_all
  then have "0 \<le> (of_int n :: rat)" "(of_int n :: rat) \<le> 100" by simp_all
  with \<open>0 \<le> w\<close> have "0 \<le> of_int n * w" "of_int n * w \<le> 100 * w"
    by (simp_all add: mult_right_mono)
  with ih show ?case by (simp add: algebra_simps)
qed

lemma Math_round_range:
  assumes "0 \<le> a" "a \<le> 100 * t" "0 < t"
  shows "0 \<le> Math_round (a / t) \<and> Math_round (a / t) \<le> 100"
proof -
  have q0: "0 \<le> a / t" using assms by simp
  have q1: "a / t \<le> 100" using assms by (simp add: pos_divide_le_eq)
  have "0 \<le> \<lfloor>a / t + 1 / 2\<rfloor>" using q0 by simp
  moreover have "\<lfloor>a / t + 1 / 2\<rfloor> \<le> 100"
  proof -
    have "a / t + 1 / 2 < of_int 101" using q1 by simp
    then have "\<lfloor>a / t + 1 / 2\<rfloor> < 101" by (simp only: floor_less_iff)
    then show ?thesis by simp
  qed
  ultimately show ?thesis by (simp add: Math_round_def)
qed

lemma floor_rat_numeral: "\<lfloor>numeral a / numeral b :: rat\<rfloor> = numeral a div numeral b"
  by (metis floor_divide_of_int_eq of_int_numeral)

lemma project_examples:
  "calculateProjectScore [with_score 80, with_score 60] [with_score 40] = 64"
  "calculateProjectScore [] [] = 0"
  "calculateProjectScore [with_score 90, with_score 70] [] = 80"
  by (simp_all add: calculateProjectScore_def with_score_def empty_result_def Let_def
      Math_round_def floor_rat_numeral)

text \<open>
  Claim C3. When every entry carries an integer score between 0 and 100,
  \<^verbatim>\<open>calculateProjectScore\<close> is the rounded weighted mean of the specification (weight 1 for a
  production entry, 1/2 for a dev entry, 0 for two empty sequences) and lies between 0 and
  100; the entries 80, 60 with the dev entry 40 give 64.
\<close>

theorem calculateProjectScore_weighted_mean:
  assumes "map score results = map Some ps"
    and "map score devResults = map Some ds"
    and "\<forall>n \<in> set ps \<union> set ds. 0 \<le> n \<and> n \<le> 100"
  shows "calculateProjectScore results devResults = spec_projectScore ps ds
    \<and> 0 \<le> calculateProjectScore results devResults
    \<and> calculateProjectScore results devResults \<le> 100
    \<and> calculateProjectScore [] [] = 0
    \<and> calculateProjectScore [with_score 80, with_score 60] [with_score 40] = 64"
proof -
  define a where "a = sum_list (map (\<lambda>s. of_int s * (1::rat)) ps)
     + sum_list (map (\<lambda>s. of_int s * (1 / 2 :: rat)) ds)"
  define t where "t = (of_nat (length ps) * 1 + of_nat (length ds) * (1 / 2) :: rat)"
  have lp: "length results = length ps" using assms(1) by (metis length_map)
  have ld: "length devResults = length ds" using assms(2) by (metis length_map)
  have code: "calculateProjectScore results devResults = (if t = 0 then 0 else Math_round (a / t))"
    unfolding calculateProjectScore_closed weighted_values[OF assms(1)]
      weighted_values[OF assms(2)] lp ld a_def t_def Let_def ..
  have t0: "(t = 0) = (ps = [] \<and> ds = [])"
    unfolding t_def total_weight_zero by simp
  have spec: "spec_projectScore ps ds = (if ps = [] \<and> ds = [] then 0 else round (a / t))"
    unfolding spec_projectScore_def a_def t_def ..
  have eq: "calculateProjectScore results devResults = spec_projectScore ps ds"
    by (simp add: code spec t0 Math_round_def round_def)
  have range: "0 \<le> calculateProjectScore results devResults
      \<and> calculateProjectScore results devResults \<le> 100"
  proof (cases "t = 0")
    case True
    then show ?thesis by (simp add: code)
  next
    case False
    have tpos: "0 < t"
    proof -
      have "0 \<le> t" unfolding t_def by simp
      with False show ?thesis by simp
    qed
    have p: "0 \<le> sum_list (map (\<lambda>s. of_int s * (1::rat)) ps)
       \<and> sum_list (map (\<lambda>s. of_int s * (1::rat)) ps) \<le> 100 * (of_nat (length ps) * 1)"
      using assms(3) by (intro weighted_sum_bounds) simp_all
    have d: "0 \<le> sum_list (map (\<lambda>s. of_int s * (1 / 2 :: rat)) ds)
       \<and> sum_list (map (\<lambda>s. of_int s * (1 / 2 :: rat)) ds)
           \<le> 100 * (of_nat (length ds) * (1 / 2))"
      using assms(3) by (intro weighted_sum_bounds) simp_all
    have "0 \<le> a" "a \<le> 100 * t"
      using p d unfolding a_def t_def by (simp_all add: algebra_simps)
    from Math_round_range[OF this tpos] False show ?thesis by (simp add: code)
  qed
  show ?thesis using eq range by (simp add: project_examples)
qed

theorem calculateProjectScore_weighted_mean_witness:
  "map score [with_score 80, with_score 60] = map Some [80, 60]
   \<and> map score [with_score 40] = map Some [40]
   \<and> list_all (\<lambda>n. 0 \<le> n \<and> n \<le> (100::int)) ([80, 60] @ [40])
   \<and> calculateProjectScore [with_score 80, with_score 60] [with_score 40]
       = spec_projectScore [80, 60] [40]
   \<and> spec_projectScore [80, 60] [40] = 64"
proof -
  have h1: "map score [with_score 80, with_score 60] = map Some [80, 60]"
    by (simp add: with_score_def)
  have h2: "map score [with_score 40] = map Some [40]"
    by (simp add: with_score_def)
  have h3: "\<forall>n \<in> set [80, 60] \<union> set [40]. 0 \<le> n \<and> n \<le> (100::int)" by simp
  from calculateProjectScore_weighted_mean[OF h1 h2 h3] h1 h2 h3 show ?thesis by simp
qed

section \<open>The orchestrator\<close>



lemma analyzePackage_found:
  "getPackageInfo e nm = Fulfilled (Some info) \<Longrightarrow>
   analyzePackage e nm ver =
     Fulfilled ((analysis_before_scoring e nm ver info)
       \<lparr>score := Some (calculateScore (analysis_before_scoring e nm ver info)),
        grade := Some (calculateGrade (calculateScore (analysis_before_scoring e nm ver info)))\<rparr>)"
  by (simp add: analyzePackage_def analysis_before_scoring_def Let_def)








lemma analyzePackage_security_rejected:
  assumes "getPackageInfo e nm = Fulfilled (Some info)"
    and "analyzeMaintenance e info = Fulfilled m"
    and "analyzePopularity e nm = Fulfilled p"
    and "analyzeSize e info = Fulfilled s"
    and "analyzeSecurity e nm ver = Rejected reason"
  shows "\<exists>r. analyzePackage e nm ver = Fulfilled r
    \<and> maintenance r = Some m \<and> popularity r = Some p \<and> size_rec r = Some s
    \<and> security r = Some \<lparr>vulnerabilities = Number 0, severity = Some ''none''\<rparr>
    \<and> score r = Some (calculateScore r)
    \<and> grade r = Some (calculateGrade (calculateScore r))"
proof -
  define r0 where "r0 = analysis_before_scoring e nm ver info"
  define r where "r = r0\<lparr>score := Some (calculateScore r0),
    grade := Some (calculateGrade (calculateScore r0))\<rparr>"
  have run: "analyzePackage e nm ver = Fulfilled r"
    unfolding r_def r0_def by (rule analyzePackage_found[OF assms(1)])
  have same: "calculateScore r = calculateScore r0"
    by (simp add: r_def)
  have fields: "maintenance r = Some m" "popularity r = Some p" "size_rec r = Some s"
    "security r = Some \<lparr>vulnerabilities = Number 0, severity = Some ''none''\<rparr>"
    using assms(2-5)
    by (simp_all add: r_def r0_def analysis_before_scoring_def settled_or_def
        default_security_def)
  have scored: "score r = Some (calculateScore r)"
    "grade r = Some (calculateGrade (calculateScore r))"
    unfolding same by (simp_all add: r_def)
  from run fields scored show ?thesis by blast
qed



text \<open>
  Claim C5, as the code has it. When the metadata is found, maintenance, popularity and size
  are fulfilled and the security analyzer is rejected, the security sub-record is the clean
  default \<^verbatim>\<open>{vulnerabilities: 0, severity: 'none'}\<close>, not an absent one: the score is
  \<^verbatim>\<open>calculateScore\<close> of the record with that sub-record, which is 25 more than the score of
  the same record without a security sub-record. The other three dimensions are those of
  the analyzers, the call is fulfilled, and the grade, taken from the score, is never F.
\<close>

theorem analyzePackage_security_failure:
  assumes "getPackageInfo e nm = Fulfilled (Some info)"
    and "analyzeMaintenance e info = Fulfilled m"
    and "analyzePopularity e nm = Fulfilled p"
    and "analyzeSize e info = Fulfilled s"
    and "analyzeSecurity e nm ver = Rejected reason"
  shows "\<exists>r. analyzePackage e nm ver = Fulfilled r
    \<and> maintenance r = Some m \<and> popularity r = Some p \<and> size_rec r = Some s
    \<and> security r = Some \<lparr>vulnerabilities = Number 0, severity = Some ''none''\<rparr>
    \<and> score r = Some (calculateScore r)
    \<and> calculateScore r = calculateScore (r\<lparr>security := None\<rparr>) + 25
    \<and> grade r = Some (calculateGrade (calculateScore r))
    \<and> grade r \<noteq> Some ''F''"
proof -
  from analyzePackage_security_rejected[OF assms] obtain r where
    r: "analyzePackage e nm ver = Fulfilled r" "maintenance r = Some m" "popularity r = Some p"
      "size_rec r = Some s"
      "security r = Some \<lparr>vulnerabilities = Number 0, severity = Some ''none''\<rparr>"
      "score r = Some (calculateScore r)" "grade r = Some (calculateGrade (calculateScore r))"
    by blast
  have delta: "calculateScore r = calculateScore (r\<lparr>security := None\<rparr>) + 25"
    using security_none_delta[OF r(5)] by simp
  have "0 \<le> calculateScore (r\<lparr>security := None\<rparr>)"
    using calculateScore_blocks[of "r\<lparr>security := None\<rparr>"] by simp
  with delta have "20 \<le> calculateScore r" by simp
  then have "calculateGrade (calculateScore r) \<noteq> ''F''" by (simp add: calculateGrade_def)
  with r(7) have "grade r \<noteq> Some ''F''" by simp
  with r delta show ?thesis by blast
qed

theorem analyzePackage_security_failure_witness:
  "getPackageInfo security_down_env ''left-pad'' = Fulfilled (Some example_info)
   \<and> analyzeMaintenance security_down_env example_info = Fulfilled stale_maintenance
   \<and> analyzePopularity security_down_env ''left-pad'' = Fulfilled stable_popularity
   \<and> analyzeSize security_down_env example_info = Fulfilled medium_size
   \<and> analyzeSecurity security_down_env ''left-pad'' ''^1.3.0'' = Rejected (Error (Some ''audit failed''))
   \<and> (\<exists>r. analyzePackage security_down_env ''left-pad'' ''^1.3.0'' = Fulfilled r
        \<and> score r = Some (calculateScore r)
        \<and> calculateScore r = calculateScore (r\<lparr>security := None\<rparr>) + 25
        \<and> grade r \<noteq> Some ''F'')"
proof -
  have h1: "getPackageInfo security_down_env ''left-pad'' = Fulfilled (Some example_info)"
    and h2: "analyzeMaintenance security_down_env example_info = Fulfilled stale_maintenance"
    and h3: "analyzePopularity security_down_env ''left-pad'' = Fulfilled stable_popularity"
    and h4: "analyzeSize security_down_env example_info = Fulfilled medium_size"
    and h5: "analyzeSecurity security_down_env ''left-pad'' ''^1.3.0''
               = Rejected (Error (Some ''audit failed''))"
    by (simp_all add: security_down_env_def)
  from analyzePackage_security_failure[OF h1 h2 h3 h4 h5] h1 h2 h3 h4 h5
  show ?thesis by blast
qed

text \<open>
  Claim C5 as stated fails: in the example the security analyzer is rejected and the score
  is 69, while the same record without a security sub-record scores 44.
\<close>

theorem security_failure_scores_clean:
  "analyzePackage security_down_env ''left-pad'' ''^1.3.0'' = Fulfilled security_down_result
   \<and> score security_down_result = Some 69
   \<and> calculateScore (security_down_result\<lparr>security := None\<rparr>) = 44"
proof -
  have info: "getPackageInfo security_down_env ''left-pad'' = Fulfilled (Some example_info)"
    by (simp add: security_down_env_def)
  have before: "analysis_before_scoring security_down_env ''left-pad'' ''^1.3.0'' example_info
      = security_down_result\<lparr>score := None, grade := None\<rparr>"
    by (simp add: analysis_before_scoring_def security_down_env_def security_down_result_def
        settled_or_def latest_or_unknown_def example_info_def default_security_def)
  have with_security: "calculateScore security_down_result = 69"
    by (simp add: calculateScore_sum maintenance_pts_def popularity_pts_def size_pts_def
        security_pts_def trend_pts_def security_down_result_def stale_maintenance_def
        stable_popularity_def medium_size_def js_or_def js_gt_def js_lt_def js_strict_eq_def)
  have without_security: "calculateScore (security_down_result\<lparr>security := None\<rparr>) = 44"
    by (simp add: calculateScore_sum maintenance_pts_def popularity_pts_def size_pts_def
        security_pts_def trend_pts_def security_down_result_def stale_maintenance_def
        stable_popularity_def medium_size_def js_or_def js_gt_def js_lt_def js_strict_eq_def)
  have "analyzePackage security_down_env ''left-pad'' ''^1.3.0'' = Fulfilled security_down_result"
    unfolding analyzePackage_found[OF info] before
    by (simp add: with_security calculateGrade_def) (simp add: security_down_result_def)
  then show ?thesis using without_security by (simp add: security_down_result_def)
qed

subsection \<open>The order of an object's entries\<close>
















section \<open>The download trend\<close>

text \<open>
  Whatever the series, the result falls under one of the three cases of the claim, and in
  the first the trend is read off the percent that the function returns.
\<close>

lemma getDownloadTrend_cases:
  "\<exists>r. getDownloadTrend (Some downloads) = Some r
     \<and> (0 < sixMonthsAgo r \<longrightarrow>
          (dl_trend r = ''growing'') = (10 < percent r)
          \<and> (dl_trend r = ''declining'') = (percent r < - 10)
          \<and> (dl_trend r = ''stable'') = (- 10 \<le> percent r \<and> percent r \<le> 10))
     \<and> (\<not> 0 < sixMonthsAgo r \<and> 0 < recent r \<longrightarrow> dl_trend r = ''growing'' \<and> percent r = 100)
     \<and> (\<not> 0 < sixMonthsAgo r \<and> \<not> 0 < recent r \<longrightarrow> dl_trend r = ''stable'' \<and> percent r = 0)"
  by (simp add: getDownloadTrend_def Let_def)

text \<open>
  Claim C8. With recent total \<open>R\<close> and prior total \<open>P > 0\<close> the percent should be
  \<open>(R - P) / P * 100\<close> rounded to one decimal. On a year of counts with \<open>R = 103\<close> and
  \<open>P = 80\<close> the exact change is 28.75, which rounds to 28.8 (half up as well as half to
  even), but the function returns the double nearest to 28.7: the product it rounds,
  computed in doubles, lies just below 287.5.
\<close>

theorem getDownloadTrend_tie_rounds_down:
  "getDownloadTrend (Some tie_series)
     = Some \<lparr>recent = 103, sixMonthsAgo = 80, dl_trend = ''growing'',
             percent = binary64 (287 / 10)\<rparr>
   \<and> spec_percent 103 80 = 115 / 4
   \<and> spec_round1 (spec_percent 103 80) = 288 / 10
   \<and> round_half_even (spec_percent 103 80 * 10) = 288
   \<and> js_mul (js_mul (js_div (js_sub 103 80) 80) 100) 10 < 575 / 2
   \<and> binary64 (287 / 10) < binary64 (288 / 10)"
  by code_simp

end
